theory Spec2Isabelle
  imports Complex_Main
begin

section \<open>Data model of the room coordinator\<close>

text \<open>
  The coordinator is the class \<open>Server\<close>. Its operations read and write a state store
  (\<open>$room\<close>, \<open>$global\<close>) that belongs to the hosting platform. JavaScript numbers that
  carry health, score, coordinates and millisecond timestamps are modelled as \<open>int\<close>;
  a field that an object does not have (\<open>undefined\<close>) is \<open>None\<close>.
\<close>

type_synonym account = string
type_synonym room_id = string

record player_state =
  px :: "int option"
  py :: "int option"
  angle :: "int option"
  health :: "int option"
  score :: "int option"
  pname :: "string option"

record powerup =
  pid :: string
  pwx :: int
  pwy :: int
  ptype :: "string option"
  createdAt :: int

record obstacle =
  ox :: int
  oy :: int

record room_state =
  initialized :: "bool option"
  gameTime :: "int option"
  powerups :: "powerup list option"
  obstacles :: "obstacle list option"
  lastPowerupSpawn :: "int option"

datatype payload = ProjectileData string | PowerupData powerup

text \<open>Every write to the store and every broadcast is recorded, in order.\<close>

datatype effect =
  UpdateUserState account player_state
| UpdateRoomState room_state
| BroadcastToRoom string payload

record room =
  members :: "account list"
  userStates :: "account \<rightharpoonup> player_state"
  stored :: "room_state option"
  trace :: "effect list"

type_synonym world = "room_id \<rightharpoonup> room"

datatype error = RoomFull | TypeError

subsection \<open>Constants set by the constructor\<close>

definition MAX_PLAYERS_PER_ROOM :: nat where
  "MAX_PLAYERS_PER_ROOM = 8"

definition POWERUP_SPAWN_INTERVAL :: int where
  "POWERUP_SPAWN_INTERVAL = 10000"

definition POWERUP_TYPES :: "string list" where
  "POWERUP_TYPES = [''health'', ''speed'']"

definition OBSTACLE_COUNT :: nat where
  "OBSTACLE_COUNT = 30"

subsection \<open>JavaScript idioms\<close>

text \<open>\<open>v || d\<close> on a number: the default is taken when \<open>v\<close> is missing or \<open>0\<close>.\<close>

definition or_num :: "int option \<Rightarrow> int \<Rightarrow> int" where
  "or_num v d = (case v of None \<Rightarrow> d | Some n \<Rightarrow> if n = 0 then d else n)"

text \<open>\<open>v || []\<close> on an array: every array, also the empty one, is truthy.\<close>

definition or_list :: "'a list option \<Rightarrow> 'a list" where
  "or_list v = (case v of None \<Rightarrow> [] | Some xs \<Rightarrow> xs)"

text \<open>Truthiness of a flag: missing and \<open>false\<close> are falsy.\<close>

definition truthy_bool :: "bool option \<Rightarrow> bool" where
  "truthy_bool v = (case v of None \<Rightarrow> False | Some b \<Rightarrow> b)"

text \<open>
  \<open>Math.floor(Math.random() * 1800) + 100\<close>, the draw \<open>u\<close> of \<open>Math.random()\<close> given.
  The product is taken exactly; the code rounds it to a double before the floor.
\<close>

definition rand_coord :: "real \<Rightarrow> int" where
  "rand_coord u = \<lfloor>u * 1800\<rfloor> + 100"

text \<open>\<open>xs[i]\<close>: \<open>undefined\<close> outside the array.\<close>

definition index_opt :: "'a list \<Rightarrow> int \<Rightarrow> 'a option" where
  "index_opt xs i = (if 0 \<le> i \<and> i < int (length xs) then Some (xs ! nat i) else None)"

text \<open>
  The decimal rendering of an integer, as a template literal \<open>`${n}`\<close> produces it for
  the integers below \<open>10^21\<close> in absolute value (timestamps are far below).
\<close>

definition digit_char :: "nat \<Rightarrow> char" where
  "digit_char d = char_of (48 + d)"

function show_nat :: "nat \<Rightarrow> string" where
  "show_nat n = (if n < 10 then [digit_char n] else show_nat (n div 10) @ [digit_char (n mod 10)])"
  by pat_completeness auto
termination
  by (relation "measure id") auto

declare show_nat.simps [simp del]

definition show_int :: "int \<Rightarrow> string" where
  "show_int i = (if i < 0 then CHR ''-'' # show_nat (nat (- i)) else show_nat (nat i))"

section \<open>The state store\<close>

text \<open>
  Modelled from the spec: the state store of the platform (\<open>$room\<close>) is not part of the
  repository. It holds room-scoped state and per-user state as mappings of named fields;
  a read returns the stored value, an update merges the given fields into it, and a
  broadcast sends a named event to the room.
\<close>

definition no_fields :: player_state where
  "no_fields = \<lparr>px = None, py = None, angle = None, health = None, score = None, pname = None\<rparr>"

definition no_room_fields :: room_state where
  "no_room_fields = \<lparr>initialized = None, gameTime = None, powerups = None,
     obstacles = None, lastPowerupSpawn = None\<rparr>"

definition orElse :: "'a option \<Rightarrow> 'a option \<Rightarrow> 'a option" where
  "orElse new old = (case new of None \<Rightarrow> old | Some v \<Rightarrow> Some v)"

definition merge_user :: "player_state \<Rightarrow> player_state \<Rightarrow> player_state" where
  "merge_user old upd =
     \<lparr>px = orElse (px upd) (px old), py = orElse (py upd) (py old),
      angle = orElse (angle upd) (angle old), health = orElse (health upd) (health old),
      score = orElse (score upd) (score old), pname = orElse (pname upd) (pname old)\<rparr>"

definition merge_room :: "room_state \<Rightarrow> room_state \<Rightarrow> room_state" where
  "merge_room old upd =
     \<lparr>initialized = orElse (initialized upd) (initialized old),
      gameTime = orElse (gameTime upd) (gameTime old),
      powerups = orElse (powerups upd) (powerups old),
      obstacles = orElse (obstacles upd) (obstacles old),
      lastPowerupSpawn = orElse (lastPowerupSpawn upd) (lastPowerupSpawn old)\<rparr>"

definition getUserState :: "room \<Rightarrow> account \<Rightarrow> player_state option" where
  "getUserState r a = userStates r a"

definition updateUserState :: "account \<Rightarrow> player_state \<Rightarrow> room \<Rightarrow> room" where
  "updateUserState a upd r =
     r\<lparr>userStates := (userStates r)(a \<mapsto>
          merge_user (case userStates r a of None \<Rightarrow> no_fields | Some s \<Rightarrow> s) upd),
       trace := trace r @ [UpdateUserState a upd]\<rparr>"

text \<open>\<open>updateMyState\<close> is \<open>updateUserState\<close> for the account of the caller.\<close>

definition updateMyState :: "account \<Rightarrow> player_state \<Rightarrow> room \<Rightarrow> room" where
  "updateMyState me upd r = updateUserState me upd r"

definition getRoomState :: "room \<Rightarrow> room_state option" where
  "getRoomState r = stored r"

definition updateRoomState :: "room_state \<Rightarrow> room \<Rightarrow> room" where
  "updateRoomState upd r =
     r\<lparr>stored := Some (merge_room
          (case stored r of None \<Rightarrow> no_room_fields | Some s \<Rightarrow> s) upd),
       trace := trace r @ [UpdateRoomState upd]\<rparr>"

definition broadcastToRoom :: "string \<Rightarrow> payload \<Rightarrow> room \<Rightarrow> room" where
  "broadcastToRoom ev p r = r\<lparr>trace := trace r @ [BroadcastToRoom ev p]\<rparr>"

text \<open>What an observer reads of one player.\<close>

definition healthOf :: "room \<Rightarrow> account \<Rightarrow> int option" where
  "healthOf r a = (case userStates r a of None \<Rightarrow> None | Some s \<Rightarrow> health s)"

definition scoreOf :: "room \<Rightarrow> account \<Rightarrow> int option" where
  "scoreOf r a = (case userStates r a of None \<Rightarrow> None | Some s \<Rightarrow> score s)"

section \<open>Combat\<close>

record hit_data =
  targetId :: account
  attackerId :: account
  damage :: int

definition playerHit :: "hit_data \<Rightarrow> room \<Rightarrow> string \<times> room" where
  "playerHit data r =
     (case getUserState r (targetId data) of
        None \<Rightarrow> (''player not found'', r)
      | Some targetState \<Rightarrow>
          (let newHealth = max 0 (or_num (health targetState) 100 - damage data)
           in (''success'',
               updateUserState (targetId data) (no_fields\<lparr>health := Some newHealth\<rparr>) r)))"

record death_data =
  playerId :: account
  killerId :: "account option"

definition playerDied :: "death_data \<Rightarrow> room \<Rightarrow> string \<times> room" where
  "playerDied data r =
     (let r1 = updateUserState (playerId data) (no_fields\<lparr>health := Some 100\<rparr>) r
      in case killerId data of
           None \<Rightarrow> (''success'', r1)
         | Some k \<Rightarrow>
             if k \<noteq> [] \<and> k \<noteq> playerId data then
               (case getUserState r1 k of
                  None \<Rightarrow> (''success'', r1)
                | Some killerState \<Rightarrow>
                    (let newScore = or_num (score killerState) 0 + 1
                     in (''success'',
                         updateUserState k (no_fields\<lparr>score := Some newScore\<rparr>) r1)))
             else (''success'', r1))"

section \<open>Player data\<close>

text \<open>
  The argument of \<open>setPlayerData\<close> and \<open>updatePlayerPosition\<close> is an object of the
  client; the fields the server reads from it are those of a player state.
\<close>

definition setPlayerData :: "account \<Rightarrow> player_state \<Rightarrow> room \<Rightarrow> string \<times> room" where
  "setPlayerData me data r =
     (''success'', updateMyState me (no_fields\<lparr>pname := pname data\<rparr>) r)"

definition updatePlayerPosition :: "account \<Rightarrow> player_state \<Rightarrow> room \<Rightarrow> string \<times> room" where
  "updatePlayerPosition me data r =
     (''success'',
      updateMyState me
        (no_fields\<lparr>px := px data, py := py data, angle := angle data, health := health data\<rparr>) r)"

definition fireProjectile :: "string \<Rightarrow> room \<Rightarrow> string \<times> room" where
  "fireProjectile projectileData r =
     (''success'', broadcastToRoom ''projectileFired'' (ProjectileData projectileData) r)"

section \<open>Obstacles\<close>

text \<open>
  The loop of \<open>generateObstacles\<close>. The random source \<open>rnd\<close> gives the draws of
  \<open>Math.random()\<close> by their position in the sequence of calls.
\<close>

function generateObstacles_loop :: "(nat \<Rightarrow> real) \<Rightarrow> nat \<Rightarrow> obstacle list \<Rightarrow> obstacle list" where
  "generateObstacles_loop rnd i obs =
     (if i < OBSTACLE_COUNT then
        generateObstacles_loop rnd (i + 1)
          (obs @ [\<lparr>ox = rand_coord (rnd (2 * i)), oy = rand_coord (rnd (2 * i + 1))\<rparr>])
      else obs)"
  by pat_completeness auto
termination
  by (relation "measure (\<lambda>(rnd, i, obs). OBSTACLE_COUNT - i)") auto

declare generateObstacles_loop.simps [simp del]

definition generateObstacles :: "(nat \<Rightarrow> real) \<Rightarrow> obstacle list" where
  "generateObstacles rnd = generateObstacles_loop rnd 0 []"

section \<open>Joining and leaving\<close>

definition new_room :: room where
  "new_room = \<lparr>members = [], userStates = Map.empty, stored = Some no_room_fields, trace = []\<rparr>"

definition getRoomUserAccounts :: "world \<Rightarrow> room_id \<Rightarrow> account list option" where
  "getRoomUserAccounts w rid = map_option members (w rid)"

text \<open>
  Modelled from the spec: \<open>$global.joinRoom\<close> and \<open>$global.leaveRoom\<close> belong to the
  platform. Joining is join-or-create: the caller becomes a member of the room, and a
  room that does not exist yet is created empty. Leaving removes the caller from the
  room and destroys the caller's player state.
\<close>

definition global_joinRoom :: "account \<Rightarrow> room_id \<Rightarrow> world \<Rightarrow> room" where
  "global_joinRoom me rid w =
     (let r = (case w rid of None \<Rightarrow> new_room | Some r \<Rightarrow> r)
      in r\<lparr>members := (if me \<in> set (members r) then members r else members r @ [me])\<rparr>)"

definition global_leaveRoom :: "account \<Rightarrow> room \<Rightarrow> room" where
  "global_leaveRoom me r =
     r\<lparr>members := removeAll me (members r), userStates := (userStates r)(me := None)\<rparr>"

text \<open>
  \<open>joinRoom\<close>: \<open>fresh\<close> is the room the platform picks when no room id is given,
  \<open>ux\<close> and \<open>uy\<close> are the two draws for the spawn point, \<open>rnd\<close> the draws for the
  obstacles and \<open>now\<close> the reading of \<open>Date.now()\<close>. The error is returned together
  with the state at the moment it is raised.
\<close>

definition joinRoom ::
  "account \<Rightarrow> room_id option \<Rightarrow> room_id \<Rightarrow> real \<Rightarrow> real \<Rightarrow> (nat \<Rightarrow> real) \<Rightarrow> int \<Rightarrow> world
     \<Rightarrow> (error + room_id) \<times> world" where
  "joinRoom me roomId fresh ux uy rnd now w =
     (let given = (case roomId of None \<Rightarrow> False | Some rid \<Rightarrow> rid \<noteq> []);
          full = (case roomId of
                    None \<Rightarrow> False
                  | Some rid \<Rightarrow>
                      (case getRoomUserAccounts w rid of
                         None \<Rightarrow> False
                       | Some roomUsers \<Rightarrow> length roomUsers \<ge> MAX_PLAYERS_PER_ROOM))
      in if given \<and> full then (Inl RoomFull, w)
         else
           (let joinedRoomId = (case roomId of None \<Rightarrow> fresh
                                | Some rid \<Rightarrow> if rid \<noteq> [] then rid else fresh);
                r0 = global_joinRoom me joinedRoomId w;
                r1 = updateMyState me
                       (no_fields\<lparr>px := Some (rand_coord ux), py := Some (rand_coord uy),
                          health := Some 100, score := Some 0\<rparr>) r0
            in case getRoomState r1 of
                 None \<Rightarrow> (Inl TypeError, w(joinedRoomId \<mapsto> r1))
               | Some roomState \<Rightarrow>
                   if \<not> truthy_bool (initialized roomState) then
                     (let obstacles' = generateObstacles rnd;
                          r2 = updateRoomState
                                 \<lparr>initialized = Some True, gameTime = Some 0, powerups = Some [],
                                  obstacles = Some obstacles', lastPowerupSpawn = Some now\<rparr> r1
                      in (Inr joinedRoomId, w(joinedRoomId \<mapsto> r2)))
                   else (Inr joinedRoomId, w(joinedRoomId \<mapsto> r1))))"

definition leaveRoom :: "account \<Rightarrow> room \<Rightarrow> string \<times> room" where
  "leaveRoom me r = (''success'', global_leaveRoom me r)"

section \<open>Powerups\<close>

text \<open>
  The readings of \<open>Date.now()\<close> and the draws of \<open>Math.random()\<close> that one call of
  \<open>spawnPowerup\<close> makes, in the order of the calls.
\<close>

record spawn_draws =
  now_id :: int
  rnd_type :: real
  rnd_x :: real
  rnd_y :: real
  now_created :: int
  now_spawn :: int

definition powerupData :: "spawn_draws \<Rightarrow> powerup" where
  "powerupData sd =
     \<lparr>pid = ''powerup_'' @ show_int (now_id sd),
      pwx = rand_coord (rnd_x sd),
      pwy = rand_coord (rnd_y sd),
      ptype = index_opt POWERUP_TYPES \<lfloor>rnd_type sd * real (length POWERUP_TYPES)\<rfloor>,
      createdAt = now_created sd\<rparr>"

definition spawnPowerup :: "spawn_draws \<Rightarrow> room \<Rightarrow> (error + string) \<times> room" where
  "spawnPowerup sd r =
     (case getRoomState r of
        None \<Rightarrow> (Inl TypeError, r)
      | Some roomState \<Rightarrow>
          (let powerups' = or_list (powerups roomState) @ [powerupData sd];
               r1 = updateRoomState
                      (no_room_fields\<lparr>powerups := Some powerups',
                         lastPowerupSpawn := Some (now_spawn sd)\<rparr>) r;
               r2 = broadcastToRoom ''powerupSpawned'' (PowerupData (powerupData sd)) r1
           in (Inr ''success'', r2)))"

definition collectPowerup :: "string \<Rightarrow> room \<Rightarrow> (error + string) \<times> room" where
  "collectPowerup powerupId r =
     (case getRoomState r of
        None \<Rightarrow> (Inl TypeError, r)
      | Some roomState \<Rightarrow>
          (let powerups' = filter (\<lambda>p. pid p \<noteq> powerupId) (or_list (powerups roomState))
           in (Inr ''success'', updateRoomState (no_room_fields\<lparr>powerups := Some powerups'\<rparr>) r)))"

section \<open>The tick\<close>

text \<open>
  The clean-up at the end of the tick works on \<open>roomState\<close>, the state read when the
  tick began; \<open>r\<close> is the store as the steps before have left it.
\<close>

definition tick_cleanup :: "room_state \<Rightarrow> int \<Rightarrow> room \<Rightarrow> room" where
  "tick_cleanup roomState currentTime r =
     (case powerups roomState of
        None \<Rightarrow> r
      | Some ps \<Rightarrow>
          if length ps > 0 then
            (let powerups' = filter (\<lambda>p. currentTime - createdAt p < 30000) ps
             in if length powerups' \<noteq> length ps then
                  updateRoomState (no_room_fields\<lparr>powerups := Some powerups'\<rparr>) r
                else r)
          else r)"

text \<open>
  \<open>$roomTick\<close>: \<open>now\<close> is the reading of \<open>Date.now()\<close> for the throttle, \<open>sd\<close> the
  readings and draws of the spawn, \<open>currentTime\<close> the reading for the clean-up. An
  error of the spawn is caught by the tick, which then ends.
\<close>

definition roomTick :: "int \<Rightarrow> int \<Rightarrow> spawn_draws \<Rightarrow> int \<Rightarrow> room \<Rightarrow> room" where
  "roomTick deltaMS now sd currentTime r =
     (case getRoomState r of
        None \<Rightarrow> r
      | Some roomState \<Rightarrow>
          (let gameTime' = or_num (gameTime roomState) 0 + deltaMS;
               r1 = updateRoomState (no_room_fields\<lparr>gameTime := Some gameTime'\<rparr>) r;
               lastPowerupSpawn' = or_num (lastPowerupSpawn roomState) 0
           in if now - lastPowerupSpawn' > POWERUP_SPAWN_INTERVAL then
                (case spawnPowerup sd r1 of
                   (Inl e, r2) \<Rightarrow> r2
                 | (Inr ok, r2) \<Rightarrow> tick_cleanup roomState currentTime r2)
              else tick_cleanup roomState currentTime r1))"

definition powerupsOf :: "room \<Rightarrow> powerup list" where
  "powerupsOf r = (case stored r of None \<Rightarrow> [] | Some s \<Rightarrow> or_list (powerups s))"

definition lastSpawnOf :: "room \<Rightarrow> int option" where
  "lastSpawnOf r = (case stored r of None \<Rightarrow> None | Some s \<Rightarrow> lastPowerupSpawn s)"

section \<open>Sequences of calls\<close>

text \<open>
  A call of a client or of the scheduler, with the account of the caller and the room of
  the call where the operation works on \<open>$room\<close>.
\<close>

datatype op =
  JoinRoom account "room_id option" room_id real real "nat \<Rightarrow> real" int
| LeaveRoom account room_id
| SetPlayerData account room_id player_state
| UpdatePlayerPosition account room_id player_state
| FireProjectile room_id string
| PlayerHit room_id hit_data
| PlayerDied room_id death_data
| SpawnPowerup room_id spawn_draws
| CollectPowerup room_id string
| RoomTick room_id int int spawn_draws int

text \<open>An operation on \<open>$room\<close> runs in the room of the call; there is none without the room.\<close>

definition in_room :: "room_id \<Rightarrow> (room \<Rightarrow> room) \<Rightarrow> world \<Rightarrow> world" where
  "in_room rid f w = (case w rid of None \<Rightarrow> w | Some r \<Rightarrow> w(rid \<mapsto> f r))"

fun step :: "world \<Rightarrow> op \<Rightarrow> world" where
  "step w (JoinRoom me roomId fresh ux uy rnd now) = snd (joinRoom me roomId fresh ux uy rnd now w)"
| "step w (LeaveRoom me rid) = in_room rid (\<lambda>r. snd (leaveRoom me r)) w"
| "step w (SetPlayerData me rid data) = in_room rid (\<lambda>r. snd (setPlayerData me data r)) w"
| "step w (UpdatePlayerPosition me rid data) =
     in_room rid (\<lambda>r. snd (updatePlayerPosition me data r)) w"
| "step w (FireProjectile rid projectileData) =
     in_room rid (\<lambda>r. snd (fireProjectile projectileData r)) w"
| "step w (PlayerHit rid data) = in_room rid (\<lambda>r. snd (playerHit data r)) w"
| "step w (PlayerDied rid data) = in_room rid (\<lambda>r. snd (playerDied data r)) w"
| "step w (SpawnPowerup rid sd) = in_room rid (\<lambda>r. snd (spawnPowerup sd r)) w"
| "step w (CollectPowerup rid powerupId) = in_room rid (\<lambda>r. snd (collectPowerup powerupId r)) w"
| "step w (RoomTick rid deltaMS now sd currentTime) =
     in_room rid (roomTick deltaMS now sd currentTime) w"

definition run :: "world \<Rightarrow> op list \<Rightarrow> world" where
  "run w ops = foldl step w ops"

section \<open>Invariants\<close>

text \<open>The obstacle layouts that the recorded writes of a room have stored, in order.\<close>

fun obstacle_writes :: "effect list \<Rightarrow> obstacle list list" where
  "obstacle_writes [] = []"
| "obstacle_writes (UpdateRoomState u # es) =
     (case obstacles u of None \<Rightarrow> obstacle_writes es | Some obs \<Rightarrow> obs # obstacle_writes es)"
| "obstacle_writes (UpdateUserState a u # es) = obstacle_writes es"
| "obstacle_writes (BroadcastToRoom ev p # es) = obstacle_writes es"

text \<open>
  The room is initialized, its layout has the configured count, and that layout is the
  only one ever written.
\<close>

definition layout_once :: "room \<Rightarrow> bool" where
  "layout_once r =
     (case stored r of
        None \<Rightarrow> False
      | Some s \<Rightarrow>
          initialized s = Some True \<and>
          (case obstacles s of
             None \<Rightarrow> False
           | Some obs \<Rightarrow> length obs = OBSTACLE_COUNT \<and> obstacle_writes (trace r) = [obs]))"

text \<open>A health value within the bounds.\<close>

definition health_in_range :: "int option \<Rightarrow> bool" where
  "health_in_range v = (case v of None \<Rightarrow> True | Some h \<Rightarrow> 0 \<le> h \<and> h \<le> 100)"

text \<open>
  A call whose arguments are within the bounds: a position update carries an integer
  health in \<open>[0, 100]\<close> (or none), a hit carries an integer damage that is not negative.
\<close>

fun op_in_range :: "op \<Rightarrow> bool" where
  "op_in_range (UpdatePlayerPosition me rid data) = health_in_range (health data)"
| "op_in_range (PlayerHit rid data) = (0 \<le> damage data)"
| "op_in_range other = True"

text \<open>Every stored health of the room is within the bounds.\<close>

definition health_bounded :: "room \<Rightarrow> bool" where
  "health_bounded r = (\<forall>a. health_in_range (healthOf r a))"

definition world_health_bounded :: "world \<Rightarrow> bool" where
  "world_health_bounded w = (\<forall>rid r. w rid = Some r \<longrightarrow> health_bounded r)"

definition world_layout_once :: "world \<Rightarrow> bool" where
  "world_layout_once w = (\<forall>rid r. w rid = Some r \<longrightarrow> layout_once r)"

section \<open>Two joins in flight\<close>

text \<open>
  \<open>joinRoom\<close> is asynchronous: it gives up control at every \<open>await\<close>, and another call
  may run before it goes on. Between \<open>await $room.getRoomState()\<close> and
  \<open>await $room.updateRoomState(...)\<close> the call holds the room state it has read.
  \<open>joinRoom_enter\<close> is the call up to and including that read, \<open>joinRoom_init\<close> is the
  rest of it, working on the state that was read.
\<close>

definition joinRoom_enter ::
  "account \<Rightarrow> room_id option \<Rightarrow> room_id \<Rightarrow> real \<Rightarrow> real \<Rightarrow> world
     \<Rightarrow> (error + room_id \<times> room_state) \<times> world" where
  "joinRoom_enter me roomId fresh ux uy w =
     (let given = (case roomId of None \<Rightarrow> False | Some rid \<Rightarrow> rid \<noteq> []);
          full = (case roomId of
                    None \<Rightarrow> False
                  | Some rid \<Rightarrow>
                      (case getRoomUserAccounts w rid of
                         None \<Rightarrow> False
                       | Some roomUsers \<Rightarrow> length roomUsers \<ge> MAX_PLAYERS_PER_ROOM))
      in if given \<and> full then (Inl RoomFull, w)
         else
           (let joinedRoomId = (case roomId of None \<Rightarrow> fresh
                                | Some rid \<Rightarrow> if rid \<noteq> [] then rid else fresh);
                r0 = global_joinRoom me joinedRoomId w;
                r1 = updateMyState me
                       (no_fields\<lparr>px := Some (rand_coord ux), py := Some (rand_coord uy),
                          health := Some 100, score := Some 0\<rparr>) r0
            in case getRoomState r1 of
                 None \<Rightarrow> (Inl TypeError, w(joinedRoomId \<mapsto> r1))
               | Some roomState \<Rightarrow> (Inr (joinedRoomId, roomState), w(joinedRoomId \<mapsto> r1))))"

definition joinRoom_init ::
  "room_id \<Rightarrow> room_state \<Rightarrow> (nat \<Rightarrow> real) \<Rightarrow> int \<Rightarrow> world \<Rightarrow> (error + room_id) \<times> world" where
  "joinRoom_init joinedRoomId roomState rnd now w =
     (if \<not> truthy_bool (initialized roomState) then
        (let obstacles' = generateObstacles rnd
         in (Inr joinedRoomId,
             in_room joinedRoomId
               (updateRoomState
                  \<lparr>initialized = Some True, gameTime = Some 0, powerups = Some [],
                   obstacles = Some obstacles', lastPowerupSpawn = Some now\<rparr>) w))
      else (Inr joinedRoomId, w))"

text \<open>The arguments, draws and clock reading of one call of \<open>joinRoom\<close>.\<close>

record join_call =
  caller :: account
  room_arg :: "room_id option"
  fresh_room :: room_id
  draw_x :: real
  draw_y :: real
  draws :: "nat \<Rightarrow> real"
  clock :: int

text \<open>
  Two calls in flight, in this order: the first call up to its read, the second call up
  to its read, the rest of the first, the rest of the second. The result is the world
  after the first call has returned and the world after both have.
\<close>

definition joins_interleaved :: "join_call \<Rightarrow> join_call \<Rightarrow> world \<Rightarrow> world \<times> world" where
  "joins_interleaved a b w =
     (case joinRoom_enter (caller a) (room_arg a) (fresh_room a) (draw_x a) (draw_y a) w of
        (Inl e, w1) \<Rightarrow>
          (w1, snd (joinRoom (caller b) (room_arg b) (fresh_room b) (draw_x b) (draw_y b)
                      (draws b) (clock b) w1))
      | (Inr (ridA, stateA), w1) \<Rightarrow>
          (case joinRoom_enter (caller b) (room_arg b) (fresh_room b) (draw_x b) (draw_y b) w1 of
             (Inl e, w2) \<Rightarrow>
               (let w3 = snd (joinRoom_init ridA stateA (draws a) (clock a) w2) in (w3, w3))
           | (Inr (ridB, stateB), w2) \<Rightarrow>
               (let w3 = snd (joinRoom_init ridA stateA (draws a) (clock a) w2);
                    w4 = snd (joinRoom_init ridB stateB (draws b) (clock b) w3)
                in (w3, w4))))"

text \<open>What a reader of a room sees of its layout, and the layouts written to the room.\<close>

definition obstaclesOf :: "world \<Rightarrow> room_id \<Rightarrow> obstacle list option" where
  "obstaclesOf w rid =
     (case w rid of
        None \<Rightarrow> None
      | Some r \<Rightarrow> (case stored r of None \<Rightarrow> None | Some s \<Rightarrow> obstacles s))"

definition layoutsWritten :: "world \<Rightarrow> room_id \<Rightarrow> obstacle list list" where
  "layoutsWritten w rid = (case w rid of None \<Rightarrow> [] | Some r \<Rightarrow> obstacle_writes (trace r))"

section \<open>Example rooms and calls\<close>

text \<open>A room holding the single player \<open>a\<close> with state \<open>s\<close>.\<close>

definition single_room :: "account \<Rightarrow> player_state \<Rightarrow> room" where
  "single_room a s =
     \<lparr>members = [a], userStates = [a \<mapsto> s], stored = Some no_room_fields, trace = []\<rparr>"

text \<open>A room without players whose room state is \<open>s\<close>.\<close>

definition state_room :: "room_state \<Rightarrow> room" where
  "state_room s = \<lparr>members = [], userStates = Map.empty, stored = Some s, trace = []\<rparr>"

text \<open>Two players: the victim \<open>v\<close> and the killer \<open>k\<close>.\<close>

definition duel_room :: room where
  "duel_room =
     \<lparr>members = [''v'', ''k''],
      userStates = [''v'' \<mapsto> no_fields\<lparr>health := Some 0, score := Some 5\<rparr>,
                    ''k'' \<mapsto> no_fields\<lparr>health := Some 40, score := Some 2\<rparr>],
      stored = Some no_room_fields, trace = []\<rparr>"

text \<open>A world whose only room, \<open>arena\<close>, holds eight players.\<close>

definition full_world :: world where
  "full_world =
     [''arena'' \<mapsto>
        \<lparr>members = [''p1'', ''p2'', ''p3'', ''p4'', ''p5'', ''p6'', ''p7'', ''p8''],
         userStates = Map.empty, stored = Some no_room_fields, trace = []\<rparr>]"

text \<open>The readings and draws of a spawn when the clock stands at \<open>t\<close>.\<close>

definition draws_at :: "int \<Rightarrow> spawn_draws" where
  "draws_at t = \<lparr>now_id = t, rnd_type = 0, rnd_x = 0, rnd_y = 0, now_created = t, now_spawn = t\<rparr>"

text \<open>At time 100000: a powerup older than the expiry window and a younger one.\<close>

definition old_powerup :: powerup where
  "old_powerup = \<lparr>pid = ''powerup_69999'', pwx = 100, pwy = 100, ptype = Some ''health'',
     createdAt = 69999\<rparr>"

definition young_powerup :: powerup where
  "young_powerup = \<lparr>pid = ''powerup_70001'', pwx = 100, pwy = 100, ptype = Some ''speed'',
     createdAt = 70001\<rparr>"

text \<open>A room whose last spawn was 15000 ms ago and whose only powerup has expired.\<close>

definition stale_state :: room_state where
  "stale_state = \<lparr>initialized = Some True, gameTime = Some 0, powerups = Some [old_powerup],
     obstacles = Some [], lastPowerupSpawn = Some 85000\<rparr>"

text \<open>A room whose last spawn was 5000 ms ago, with both powerups.\<close>

definition mixed_state :: room_state where
  "mixed_state = \<lparr>initialized = Some True, gameTime = Some 0,
     powerups = Some [old_powerup, young_powerup],
     obstacles = Some [], lastPowerupSpawn = Some 95000\<rparr>"

text \<open>
  Two players join the room \<open>r1\<close> one after the other, the first without naming a room;
  their random sources differ.
\<close>

definition two_joins :: "op list" where
  "two_joins =
     [JoinRoom ''a'' None ''r1'' 0 0 (\<lambda>i. 0) 1000,
      JoinRoom ''b'' (Some ''r1'') ''r2'' (1 / 2) (1 / 2) (\<lambda>i. 1 / 2) 2000]"

text \<open>A player joins and is hit for 30.\<close>

definition join_and_hit :: "op list" where
  "join_and_hit =
     [JoinRoom ''a'' None ''r1'' 0 0 (\<lambda>i. 0) 1000,
      PlayerHit ''r1'' \<lparr>targetId = ''a'', attackerId = ''b'', damage = 30\<rparr>]"

text \<open>Two first joins of the room \<open>r1\<close>, which does not exist yet.\<close>

definition first_join_a :: join_call where
  "first_join_a =
     \<lparr>caller = ''a'', room_arg = Some ''r1'', fresh_room = ''f1'', draw_x = 0, draw_y = 0,
      draws = (\<lambda>i. 0), clock = 1000\<rparr>"

definition first_join_b :: join_call where
  "first_join_b =
     \<lparr>caller = ''b'', room_arg = Some ''r1'', fresh_room = ''f2'', draw_x = 1 / 2, draw_y = 1 / 2,
      draws = (\<lambda>i. 1 / 2), clock = 1000\<rparr>"

section \<open>The store: what a read sees after a write\<close>

lemma healthOf_updateUserState:
  "healthOf (updateUserState a upd r) b =
     (if b = a then orElse (health upd) (healthOf r a) else healthOf r b)"
  by (simp add: healthOf_def updateUserState_def merge_user_def orElse_def no_fields_def
        split: option.splits)

lemma scoreOf_updateUserState:
  "scoreOf (updateUserState a upd r) b =
     (if b = a then orElse (score upd) (scoreOf r a) else scoreOf r b)"
  by (simp add: scoreOf_def updateUserState_def merge_user_def orElse_def no_fields_def
        split: option.splits)

lemma userStates_single_room: "userStates (single_room a s) b = (if b = a then Some s else None)"
  by (simp add: single_room_def)

lemma healthOf_single_room: "healthOf (single_room a s) b = (if b = a then health s else None)"
  by (simp add: healthOf_def single_room_def)

lemma scoreOf_single_room: "scoreOf (single_room a s) b = (if b = a then score s else None)"
  by (simp add: scoreOf_def single_room_def)

lemma userStates_updateUserState:
  "userStates (updateUserState a upd r) b =
     (if b = a then Some (merge_user (case userStates r a of None \<Rightarrow> no_fields | Some s \<Rightarrow> s) upd)
      else userStates r b)"
  by (simp add: updateUserState_def)

lemma stored_updateRoomState:
  "stored (updateRoomState upd r) =
     Some (merge_room (case stored r of None \<Rightarrow> no_room_fields | Some s \<Rightarrow> s) upd)"
  by (simp add: updateRoomState_def)

lemma trace_updateRoomState: "trace (updateRoomState upd r) = trace r @ [UpdateRoomState upd]"
  by (simp add: updateRoomState_def)

lemma stored_broadcastToRoom: "stored (broadcastToRoom ev p r) = stored r"
  by (simp add: broadcastToRoom_def)

lemma trace_broadcastToRoom: "trace (broadcastToRoom ev p r) = trace r @ [BroadcastToRoom ev p]"
  by (simp add: broadcastToRoom_def)

lemma powerupsOf_write:
  "powerupsOf (updateRoomState (no_room_fields\<lparr>powerups := Some ps\<rparr>) r) = ps"
  by (simp add: powerupsOf_def stored_updateRoomState merge_room_def orElse_def or_list_def
        no_room_fields_def)

lemma spawnPowerup_room:
  assumes "stored r = Some s"
  shows "spawnPowerup sd r =
     (Inr ''success'',
      broadcastToRoom ''powerupSpawned'' (PowerupData (powerupData sd))
        (updateRoomState (no_room_fields\<lparr>powerups := Some (or_list (powerups s) @ [powerupData sd]),
            lastPowerupSpawn := Some (now_spawn sd)\<rparr>) r))"
  using assms by (simp add: spawnPowerup_def getRoomState_def Let_def)

lemma powerupsOf_spawnPowerup:
  assumes "stored r = Some s"
  shows "powerupsOf (snd (spawnPowerup sd r)) = powerupsOf r @ [powerupData sd]"
  using assms
  by (simp add: spawnPowerup_room powerupsOf_def stored_broadcastToRoom stored_updateRoomState
        merge_room_def orElse_def or_list_def no_room_fields_def)

lemma stored_spawnPowerup:
  assumes "stored r = Some s"
  shows "\<exists>s'. stored (snd (spawnPowerup sd r)) = Some s'"
  using assms
  by (simp add: spawnPowerup_room stored_broadcastToRoom stored_updateRoomState)

lemma stored_state_room: "stored (state_room s) = Some s"
  by (simp add: state_room_def)

lemma powerupsOf_state_room: "powerupsOf (state_room s) = or_list (powerups s)"
  by (simp add: state_room_def powerupsOf_def)


lemma trace_state_room: "trace (state_room s) = []"
  by (simp add: state_room_def)

lemma tick_cleanup_powerups:
  assumes "powerups roomState = Some ps"
  shows "tick_cleanup roomState currentTime r =
     (if length (filter (\<lambda>p. currentTime - createdAt p < 30000) ps) \<noteq> length ps then
        updateRoomState
          (no_room_fields\<lparr>powerups := Some (filter (\<lambda>p. currentTime - createdAt p < 30000) ps)\<rparr>) r
      else r)"
  using assms by (cases ps) (simp_all add: tick_cleanup_def Let_def)

lemma roomTick_room:
  assumes "stored r = Some roomState"
  shows "roomTick deltaMS now sd currentTime r =
     tick_cleanup roomState currentTime
       (if now - or_num (lastPowerupSpawn roomState) 0 > 10000 then
          broadcastToRoom ''powerupSpawned'' (PowerupData (powerupData sd))
            (updateRoomState
               (no_room_fields\<lparr>powerups := Some (or_list (powerups roomState) @ [powerupData sd]),
                  lastPowerupSpawn := Some (now_spawn sd)\<rparr>)
               (updateRoomState
                  (no_room_fields\<lparr>gameTime := Some (or_num (gameTime roomState) 0 + deltaMS)\<rparr>) r))
        else
          updateRoomState
            (no_room_fields\<lparr>gameTime := Some (or_num (gameTime roomState) 0 + deltaMS)\<rparr>) r)"
proof -
  let ?r1 = "updateRoomState
     (no_room_fields\<lparr>gameTime := Some (or_num (gameTime roomState) 0 + deltaMS)\<rparr>) r"
  have s1: "stored ?r1 = Some (roomState\<lparr>gameTime := Some (or_num (gameTime roomState) 0 + deltaMS)\<rparr>)"
    using assms
    by (simp add: stored_updateRoomState merge_room_def orElse_def no_room_fields_def)
  show ?thesis
    using assms
    by (simp add: roomTick_def getRoomState_def Let_def POWERUP_SPAWN_INTERVAL_def
          spawnPowerup_room [OF s1])
qed

lemma filter_length_eq: "length (filter P xs) = length xs \<Longrightarrow> filter P xs = xs"
  by (metis filter_True length_filter_less less_irrefl)  


section \<open>Damage\<close>

text \<open>
  C2, amended. When the target exists and its stored health \<open>h\<close> is present and not \<open>0\<close>,
  \<open>playerHit\<close> succeeds and the health stored afterwards is \<open>max 0 (h - damage)\<close>. It is
  never negative; it is at most 100 when \<open>h\<close> was at most 100 and the damage is not
  negative. (100 hit by 30 gives 70; 20 hit by 150 gives 0.)
\<close>

theorem playerHit_health:
  assumes "userStates r (targetId d) = Some ts" and "health ts = Some h" and "h \<noteq> 0"
  shows "fst (playerHit d r) = ''success'' \<and>
         healthOf (snd (playerHit d r)) (targetId d) = Some (max 0 (h - damage d)) \<and>
         0 \<le> max 0 (h - damage d) \<and>
         (h \<le> 100 \<and> 0 \<le> damage d \<longrightarrow> max 0 (h - damage d) \<le> 100)"
  using assms
  by (simp add: playerHit_def getUserState_def or_num_def healthOf_updateUserState Let_def
        orElse_def)

theorem playerHit_health_witness:
  "healthOf (snd (playerHit \<lparr>targetId = ''t'', attackerId = ''a'', damage = 30\<rparr>
       (single_room ''t'' (no_fields\<lparr>health := Some 100\<rparr>)))) ''t'' = Some 70 \<and>
   healthOf (snd (playerHit \<lparr>targetId = ''t'', attackerId = ''a'', damage = 150\<rparr>
       (single_room ''t'' (no_fields\<lparr>health := Some 20\<rparr>)))) ''t'' = Some 0"
  using playerHit_health [of "single_room ''t'' (no_fields\<lparr>health := Some 100\<rparr>)"
          "\<lparr>targetId = ''t'', attackerId = ''a'', damage = 30\<rparr>"
          "no_fields\<lparr>health := Some 100\<rparr>" 100]
        playerHit_health [of "single_room ''t'' (no_fields\<lparr>health := Some 20\<rparr>)"
          "\<lparr>targetId = ''t'', attackerId = ''a'', damage = 150\<rparr>"
          "no_fields\<lparr>health := Some 20\<rparr>" 20]
  by (simp add: userStates_single_room)

text \<open>
  C2 as stated fails twice: a negative damage raises the health above 100 (100 hit by
  \<open>-50\<close> gives 150), and a stored health of \<open>0\<close> is not the \<open>h\<close> the damage is taken
  from (0 hit by 30 gives 70, not \<open>max 0 (0 - 30) = 0\<close>).
\<close>

theorem playerHit_health_counterexample:
  "healthOf (snd (playerHit \<lparr>targetId = ''t'', attackerId = ''a'', damage = - 50\<rparr>
       (single_room ''t'' (no_fields\<lparr>health := Some 100\<rparr>)))) ''t'' = Some 150 \<and>
   \<not> (150::int) \<le> 100 \<and>
   healthOf (snd (playerHit \<lparr>targetId = ''t'', attackerId = ''a'', damage = 30\<rparr>
       (single_room ''t'' (no_fields\<lparr>health := Some 0\<rparr>)))) ''t'' = Some 70 \<and>
   (70::int) \<noteq> max 0 (0 - 30)"
  by (simp add: playerHit_def getUserState_def or_num_def healthOf_updateUserState Let_def
        orElse_def userStates_single_room healthOf_single_room)

text \<open>
  C10. When the target exists and its stored health is missing or \<open>0\<close>, the damage is
  taken from the default 100: the health stored afterwards is \<open>max 0 (100 - damage)\<close>.
  (A stored 0 hit by 30 gives 70.)
\<close>

theorem playerHit_default_health:
  assumes "userStates r (targetId d) = Some ts" and "health ts = None \<or> health ts = Some 0"
  shows "fst (playerHit d r) = ''success'' \<and>
         healthOf (snd (playerHit d r)) (targetId d) = Some (max 0 (100 - damage d))"
  using assms
  by (auto simp add: playerHit_def getUserState_def or_num_def healthOf_updateUserState Let_def
        orElse_def)

theorem playerHit_default_health_witness:
  "healthOf (snd (playerHit \<lparr>targetId = ''t'', attackerId = ''a'', damage = 30\<rparr>
       (single_room ''t'' (no_fields\<lparr>health := Some 0\<rparr>)))) ''t'' = Some 70"
  using playerHit_default_health [of "single_room ''t'' (no_fields\<lparr>health := Some 0\<rparr>)"
          "\<lparr>targetId = ''t'', attackerId = ''a'', damage = 30\<rparr>"
          "no_fields\<lparr>health := Some 0\<rparr>"]
  by (simp add: userStates_single_room)

section \<open>Death\<close>

text \<open>
  C4. \<open>playerDied\<close> always succeeds and leaves the victim's health at 100. When the
  killer id is given (not missing, not empty), differs from the victim and the killer
  has a player state, the killer's score becomes its old value (0 when missing) plus 1
  and no other score changes; in every other case no score changes.
\<close>

theorem playerDied_health_score:
  "fst (playerDied d r) = ''success'' \<and>
   healthOf (snd (playerDied d r)) (playerId d) = Some 100 \<and>
   (\<forall>k. killerId d = Some k \<and> k \<noteq> [] \<and> k \<noteq> playerId d \<and> userStates r k \<noteq> None \<longrightarrow>
        scoreOf (snd (playerDied d r)) k = Some (or_num (scoreOf r k) 0 + 1) \<and>
        (\<forall>a. a \<noteq> k \<longrightarrow> scoreOf (snd (playerDied d r)) a = scoreOf r a)) \<and>
   (\<not> (\<exists>k. killerId d = Some k \<and> k \<noteq> [] \<and> k \<noteq> playerId d \<and> userStates r k \<noteq> None) \<longrightarrow>
        (\<forall>a. scoreOf (snd (playerDied d r)) a = scoreOf r a))"
  by (auto simp add: playerDied_def Let_def getUserState_def healthOf_updateUserState
        scoreOf_updateUserState userStates_updateUserState orElse_def no_fields_def
        scoreOf_def merge_user_def
        split: option.splits)

theorem playerDied_health_score_witness:
  "healthOf (snd (playerDied \<lparr>playerId = ''v'', killerId = Some ''k''\<rparr> duel_room)) ''v'' = Some 100 \<and>
   scoreOf (snd (playerDied \<lparr>playerId = ''v'', killerId = Some ''k''\<rparr> duel_room)) ''k'' = Some 3 \<and>
   scoreOf (snd (playerDied \<lparr>playerId = ''v'', killerId = Some ''k''\<rparr> duel_room)) ''v'' = Some 5 \<and>
   scoreOf (snd (playerDied \<lparr>playerId = ''v'', killerId = Some ''v''\<rparr> duel_room)) ''k'' = Some 2 \<and>
   scoreOf (snd (playerDied \<lparr>playerId = ''v'', killerId = None\<rparr> duel_room)) ''k'' = Some 2"
  using playerDied_health_score [of "\<lparr>playerId = ''v'', killerId = Some ''k''\<rparr>" duel_room]
        playerDied_health_score [of "\<lparr>playerId = ''v'', killerId = Some ''v''\<rparr>" duel_room]
        playerDied_health_score [of "\<lparr>playerId = ''v'', killerId = None\<rparr>" duel_room]
  by (simp add: duel_room_def scoreOf_def or_num_def no_fields_def)

section \<open>A full room\<close>

text \<open>
  C3. A join that names a room holding 8 or more players fails with the room-full error
  and returns the world as it was: no player state, no room state, no member and no
  recorded write has changed.
\<close>

theorem joinRoom_full:
  assumes "rid \<noteq> []" and "w rid = Some r" and "MAX_PLAYERS_PER_ROOM \<le> length (members r)"
  shows "joinRoom me (Some rid) fresh ux uy rnd now w = (Inl RoomFull, w)"
  using assms by (simp add: joinRoom_def getRoomUserAccounts_def)

theorem joinRoom_full_witness:
  "joinRoom ''p9'' (Some ''arena'') ''other'' 0 0 (\<lambda>i. 0) 1000 full_world = (Inl RoomFull, full_world) \<and>
   map_option length (getRoomUserAccounts full_world ''arena'') = Some 8"
  using joinRoom_full [of "''arena''" full_world
          "\<lparr>members = [''p1'', ''p2'', ''p3'', ''p4'', ''p5'', ''p6'', ''p7'', ''p8''],
            userStates = Map.empty, stored = Some no_room_fields, trace = []\<rparr>"
          "''p9''" "''other''" 0 0 "\<lambda>i. 0" 1000]
  by (simp add: full_world_def MAX_PLAYERS_PER_ROOM_def getRoomUserAccounts_def)

section \<open>Powerup ids\<close>

lemma digit_char_inj: "a < 10 \<Longrightarrow> b < 10 \<Longrightarrow> digit_char a = digit_char b \<Longrightarrow> a = b"
  by (simp add: digit_char_def)

lemma digit_char_not_minus: "d < 10 \<Longrightarrow> digit_char d \<noteq> CHR ''-''"
proof
  assume "d < 10" and "digit_char d = CHR ''-''"
  then have "of_char (digit_char d) = (of_char (CHR ''-'') :: nat)" by simp
  with \<open>d < 10\<close> show False by (simp add: digit_char_def)
qed

lemma show_nat_not_Nil: "show_nat n \<noteq> []"
  by (subst show_nat.simps) simp

lemma show_nat_small: "n < 10 \<Longrightarrow> show_nat n = [digit_char n]"
  by (subst show_nat.simps) simp

lemma show_nat_big: "\<not> n < 10 \<Longrightarrow> show_nat n = show_nat (n div 10) @ [digit_char (n mod 10)]"
  by (subst show_nat.simps) simp

lemma show_nat_inj: "show_nat n = show_nat m \<Longrightarrow> n = m"
proof (induction n arbitrary: m rule: show_nat.induct)
  case (1 n)
  show ?case
  proof (cases "n < 10")
    case small: True
    show ?thesis
    proof (cases "m < 10")
      case True
      with small "1.prems" show ?thesis
        by (simp add: show_nat_small digit_char_inj)
    next
      case False
      with small "1.prems" show_nat_not_Nil [of "m div 10"] show ?thesis
        by (simp add: show_nat_small show_nat_big)
    qed
  next
    case big: False
    show ?thesis
    proof (cases "m < 10")
      case True
      with big "1.prems" show_nat_not_Nil [of "n div 10"] show ?thesis
        by (simp add: show_nat_small show_nat_big)
    next
      case False
      with big "1.prems" have eq: "show_nat (n div 10) = show_nat (m div 10)"
        and d: "digit_char (n mod 10) = digit_char (m mod 10)"
        by (simp_all add: show_nat_big)
      from "1.IH" [OF big eq] have "n div 10 = m div 10" .
      moreover from d have "n mod 10 = m mod 10"
        by (intro digit_char_inj) simp_all
      ultimately show ?thesis
        by (metis div_mult_mod_eq)
    qed
  qed
qed

lemma hd_show_nat_not_minus: "hd (show_nat n) \<noteq> CHR ''-''"
proof (induction n rule: show_nat.induct)
  case (1 n)
  show ?case
  proof (cases "n < 10")
    case True
    then show ?thesis by (simp add: show_nat_small digit_char_not_minus)
  next
    case False
    with "1.IH" show_nat_not_Nil [of "n div 10"] show ?thesis
      by (simp add: show_nat_big)
  qed
qed

lemma show_int_inj: "show_int i = show_int j \<Longrightarrow> i = j"
proof -
  assume eq: "show_int i = show_int j"
  have neg_pos: False if "show_int a = show_int b" and "a < 0" and "\<not> b < 0" for a b
  proof -
    from that have "CHR ''-'' # show_nat (nat (- a)) = show_nat (nat b)"
      by (simp add: show_int_def)
    then have "hd (show_nat (nat b)) = CHR ''-''"
      by (metis list.sel(1))
    then show False using hd_show_nat_not_minus by blast
  qed
  consider "i < 0" "j < 0" | "i < 0" "\<not> j < 0" | "\<not> i < 0" "j < 0" | "\<not> i < 0" "\<not> j < 0"
    by blast
  then show ?thesis
  proof cases
    case 1
    with eq have "nat (- i) = nat (- j)" by (simp add: show_int_def show_nat_inj)
    with 1 show ?thesis by simp
  next
    case 2
    with eq neg_pos show ?thesis by blast
  next
    case 3
    with eq neg_pos [of j i] show ?thesis by simp
  next
    case 4
    with eq have "nat i = nat j" by (simp add: show_int_def show_nat_inj)
    with 4 show ?thesis by simp
  qed
qed


text \<open>
  C8, amended. The id of a powerup is \<open>powerup_\<close> followed by the decimal reading of
  the clock when the id is made; there is no counter. Two powerups spawned one after the
  other are both in the list, and their ids are equal exactly when the two clock
  readings are equal: spawned at different readings, they have distinct ids.
\<close>

theorem spawnPowerup_ids:
  assumes "stored r = Some s"
  shows "powerupsOf (snd (spawnPowerup sd2 (snd (spawnPowerup sd1 r)))) =
           powerupsOf r @ [powerupData sd1, powerupData sd2] \<and>
         pid (powerupData sd1) = ''powerup_'' @ show_int (now_id sd1) \<and>
         (pid (powerupData sd1) = pid (powerupData sd2) \<longleftrightarrow> now_id sd1 = now_id sd2)"
proof -
  from assms obtain s' where "stored (snd (spawnPowerup sd1 r)) = Some s'"
    using stored_spawnPowerup by blast
  then have "powerupsOf (snd (spawnPowerup sd2 (snd (spawnPowerup sd1 r)))) =
      powerupsOf (snd (spawnPowerup sd1 r)) @ [powerupData sd2]"
    by (rule powerupsOf_spawnPowerup)
  with assms have "powerupsOf (snd (spawnPowerup sd2 (snd (spawnPowerup sd1 r)))) =
      powerupsOf r @ [powerupData sd1, powerupData sd2]"
    by (simp add: powerupsOf_spawnPowerup)
  moreover have "pid (powerupData sd1) = pid (powerupData sd2) \<longleftrightarrow> now_id sd1 = now_id sd2"
    using show_int_inj by (auto simp add: powerupData_def)
  ultimately show ?thesis
    by (simp add: powerupData_def)
qed

theorem spawnPowerup_ids_witness:
  "map pid (powerupsOf (snd (spawnPowerup (draws_at 2000)
      (snd (spawnPowerup (draws_at 1000) (state_room no_room_fields)))))) =
     [''powerup_1000'', ''powerup_2000''] \<and>
   ''powerup_1000'' \<noteq> ''powerup_2000''"
proof -
  have a: "show_int 1000 = ''1000''" by code_simp
  have b: "show_int 2000 = ''2000''" by code_simp
  show ?thesis
    using spawnPowerup_ids [where r = "state_room no_room_fields" and s = no_room_fields
            and ?sd1.0 = "draws_at 1000" and ?sd2.0 = "draws_at 2000"]
    by (simp add: stored_state_room powerupsOf_state_room or_list_def no_room_fields_def
          draws_at_def powerupData_def a b)
qed

text \<open>
  C8 as stated fails: two powerups spawned at the same clock reading 1000 are both in
  the list with the id \<open>powerup_1000\<close>.
\<close>

theorem spawnPowerup_ids_counterexample:
  "map pid (powerupsOf (snd (spawnPowerup (draws_at 1000)
      (snd (spawnPowerup (draws_at 1000) (state_room no_room_fields)))))) =
     [''powerup_1000'', ''powerup_1000''] \<and>
   \<not> distinct (map pid (powerupsOf (snd (spawnPowerup (draws_at 1000)
      (snd (spawnPowerup (draws_at 1000) (state_room no_room_fields)))))))"
proof -
  have a: "show_int 1000 = ''1000''" by code_simp
  have s: "stored (state_room no_room_fields) = Some no_room_fields"
    by (rule stored_state_room)
  obtain s' where s': "stored (snd (spawnPowerup (draws_at 1000) (state_room no_room_fields))) = Some s'"
    using stored_spawnPowerup [OF s] by blast
  have "powerupsOf (snd (spawnPowerup (draws_at 1000)
      (snd (spawnPowerup (draws_at 1000) (state_room no_room_fields))))) =
      [powerupData (draws_at 1000), powerupData (draws_at 1000)]"
    by (simp add: powerupsOf_spawnPowerup [OF s'] powerupsOf_spawnPowerup [OF s])
       (simp add: powerupsOf_state_room or_list_def no_room_fields_def)
  then show ?thesis
    by (simp add: powerupData_def draws_at_def a)
qed

section \<open>The tick: expiry\<close>

text \<open>
  C7. Let the tick read the powerups \<open>ps\<close>, and let \<open>currentTime\<close> be the clock of the
  clean-up. After the tick no powerup of \<open>ps\<close> whose age is 30000 ms or more (so none
  whose age exceeds 30000) is in the list, every powerup of \<open>ps\<close> younger than 30000 ms
  still is, and whatever is in the list is younger than 30000 ms or is the powerup this
  tick has spawned. The writes of the tick are the game time, then the two effects of the
  spawn when it is due, then the filtered list, which is written only when its length
  differs from the length of \<open>ps\<close>.
\<close>

theorem roomTick_expiry:
  assumes "getRoomState r = Some roomState" and "powerups roomState = Some ps"
  shows "(\<forall>p\<in>set ps. \<not> currentTime - createdAt p < 30000 \<longrightarrow>
            p \<notin> set (powerupsOf (roomTick deltaMS now sd currentTime r))) \<and>
         (\<forall>p\<in>set ps. currentTime - createdAt p < 30000 \<longrightarrow>
            p \<in> set (powerupsOf (roomTick deltaMS now sd currentTime r))) \<and>
         (\<forall>p\<in>set (powerupsOf (roomTick deltaMS now sd currentTime r)).
            currentTime - createdAt p < 30000 \<or> p = powerupData sd) \<and>
         trace (roomTick deltaMS now sd currentTime r) =
           trace r
           @ [UpdateRoomState
                (no_room_fields\<lparr>gameTime := Some (or_num (gameTime roomState) 0 + deltaMS)\<rparr>)]
           @ (if now - or_num (lastPowerupSpawn roomState) 0 > 10000 then
                [UpdateRoomState
                   (no_room_fields\<lparr>powerups := Some (ps @ [powerupData sd]),
                      lastPowerupSpawn := Some (now_spawn sd)\<rparr>),
                 BroadcastToRoom ''powerupSpawned'' (PowerupData (powerupData sd))]
              else [])
           @ (if length (filter (\<lambda>p. currentTime - createdAt p < 30000) ps) \<noteq> length ps then
                [UpdateRoomState
                   (no_room_fields\<lparr>powerups :=
                      Some (filter (\<lambda>p. currentTime - createdAt p < 30000) ps)\<rparr>)]
              else [])"
proof -
  let ?keep = "\<lambda>p. currentTime - createdAt p < 30000"
  let ?r' = "roomTick deltaMS now sd currentTime r"
  from assms have st: "stored r = Some roomState"
    by (simp add: getRoomState_def)
  have pr: "powerupsOf r = ps"
    using st assms(2) by (simp add: powerupsOf_def or_list_def)
  have tr: "trace ?r' =
           trace r
           @ [UpdateRoomState
                (no_room_fields\<lparr>gameTime := Some (or_num (gameTime roomState) 0 + deltaMS)\<rparr>)]
           @ (if now - or_num (lastPowerupSpawn roomState) 0 > 10000 then
                [UpdateRoomState
                   (no_room_fields\<lparr>powerups := Some (ps @ [powerupData sd]),
                      lastPowerupSpawn := Some (now_spawn sd)\<rparr>),
                 BroadcastToRoom ''powerupSpawned'' (PowerupData (powerupData sd))]
              else [])
           @ (if length (filter ?keep ps) \<noteq> length ps then
                [UpdateRoomState (no_room_fields\<lparr>powerups := Some (filter ?keep ps)\<rparr>)]
              else [])"
    using assms(2)
    by (simp add: roomTick_room [OF st] tick_cleanup_powerups trace_updateRoomState
          trace_broadcastToRoom or_list_def)
  have purge: "powerupsOf ?r' = filter ?keep ps" if "length (filter ?keep ps) \<noteq> length ps"
    using that assms(2)
    by (simp add: roomTick_room [OF st] tick_cleanup_powerups powerupsOf_write)
  have keep: "set ps \<subseteq> set (powerupsOf ?r') \<and> set (powerupsOf ?r') \<subseteq> set ps \<union> {powerupData sd}"
    if "length (filter ?keep ps) = length ps"
    using that assms(2) st
    by (auto simp add: roomTick_room [OF st] tick_cleanup_powerups powerupsOf_def
          stored_updateRoomState stored_broadcastToRoom merge_room_def orElse_def or_list_def
          no_room_fields_def)
  have gone: "p \<notin> set (powerupsOf ?r')" if "p \<in> set ps" and "\<not> ?keep p" for p
  proof -
    from that have "filter ?keep ps \<noteq> ps"
      by (metis filter_id_conv)
    then have "length (filter ?keep ps) \<noteq> length ps"
      using filter_length_eq by blast
    then have "powerupsOf ?r' = filter ?keep ps" by (rule purge)
    with that show ?thesis by simp
  qed
  have stays: "p \<in> set (powerupsOf ?r')" if "p \<in> set ps" and "?keep p" for p
  proof (cases "length (filter ?keep ps) = length ps")
    case True
    with keep that show ?thesis by blast
  next
    case False
    then have "powerupsOf ?r' = filter ?keep ps" by (rule purge)
    with that show ?thesis by simp
  qed
  have young: "?keep p \<or> p = powerupData sd" if "p \<in> set (powerupsOf ?r')" for p
  proof (cases "length (filter ?keep ps) = length ps")
    case True
    then have "filter ?keep ps = ps" by (rule filter_length_eq)
    then have "\<forall>q\<in>set ps. ?keep q" by (metis filter_id_conv)
    with keep [OF True] that show ?thesis by blast
  next
    case False
    then have "powerupsOf ?r' = filter ?keep ps" by (rule purge)
    with that show ?thesis by simp
  qed
  from gone stays young tr show ?thesis by blast
qed

theorem roomTick_expiry_witness:
  "old_powerup \<notin> set (powerupsOf (roomTick 100 100000 (draws_at 100000) 100000 (state_room mixed_state))) \<and>
   young_powerup \<in> set (powerupsOf (roomTick 100 100000 (draws_at 100000) 100000 (state_room mixed_state))) \<and>
   trace (roomTick 100 100000 (draws_at 100000) 100000 (state_room mixed_state)) =
     [UpdateRoomState (no_room_fields\<lparr>gameTime := Some 100\<rparr>),
      UpdateRoomState (no_room_fields\<lparr>powerups := Some [young_powerup]\<rparr>)]"
  using roomTick_expiry [where r = "state_room mixed_state" and roomState = mixed_state
          and ps = "[old_powerup, young_powerup]" and currentTime = 100000 and deltaMS = 100
          and now = 100000 and sd = "draws_at 100000"]
  by (simp add: getRoomState_def stored_state_room trace_state_room mixed_state_def
        old_powerup_def young_powerup_def or_num_def)


section \<open>The tick: spawning\<close>

text \<open>
  C6 at the failing input. The last spawn was 15000 ms ago and the only powerup of the
  room has expired. The tick spawns a powerup, writes it and broadcasts it, and then
  writes the filtered copy of the list it read at its start: the list is empty when the
  tick completes, although \<open>lastPowerupSpawn\<close> has advanced to \<open>now\<close>.
\<close>

theorem roomTick_loses_spawned_powerup:
  "powerupsOf (roomTick 100 100000 (draws_at 100000) 100000 (state_room stale_state)) = [] \<and>
   lastSpawnOf (roomTick 100 100000 (draws_at 100000) 100000 (state_room stale_state)) = Some 100000 \<and>
   trace (roomTick 100 100000 (draws_at 100000) 100000 (state_room stale_state)) =
     [UpdateRoomState (no_room_fields\<lparr>gameTime := Some 100\<rparr>),
      UpdateRoomState (no_room_fields\<lparr>powerups := Some [old_powerup, powerupData (draws_at 100000)],
         lastPowerupSpawn := Some 100000\<rparr>),
      BroadcastToRoom ''powerupSpawned'' (PowerupData (powerupData (draws_at 100000))),
      UpdateRoomState (no_room_fields\<lparr>powerups := Some []\<rparr>)]"
proof -
  have p: "powerups stale_state = Some [old_powerup]"
    by (simp add: stale_state_def)
  have l: "or_num (lastPowerupSpawn stale_state) 0 = 85000"
    and g: "or_num (gameTime stale_state) 0 = 0"
    and c: "createdAt old_powerup = 69999"
    by (simp_all add: stale_state_def or_num_def old_powerup_def)
  show ?thesis
    by (simp add: roomTick_room [OF stored_state_room] tick_cleanup_powerups [OF p] p l g c
          or_list_def powerupsOf_def lastSpawnOf_def stored_updateRoomState
          stored_broadcastToRoom trace_updateRoomState trace_broadcastToRoom trace_state_room
          stored_state_room merge_room_def orElse_def no_room_fields_def draws_at_def)
qed

section \<open>The obstacle layout is written once\<close>

lemma obstacle_writes_append:
  "obstacle_writes (xs @ ys) = obstacle_writes xs @ obstacle_writes ys"
  by (induction xs rule: obstacle_writes.induct) (simp_all split: option.splits)

lemma length_generateObstacles_loop:
  "length (generateObstacles_loop rnd i obs) = length obs + (OBSTACLE_COUNT - i)"
proof (induction rnd i obs rule: generateObstacles_loop.induct)
  case (1 rnd i obs)
  show ?case
  proof (cases "i < OBSTACLE_COUNT")
    case True
    with "1.IH" show ?thesis
      by (subst generateObstacles_loop.simps) simp
  next
    case False
    then show ?thesis
      by (subst generateObstacles_loop.simps) simp
  qed
qed

lemma length_generateObstacles: "length (generateObstacles rnd) = OBSTACLE_COUNT"
  by (simp add: generateObstacles_def length_generateObstacles_loop)

lemma layout_once_updateUserState: "layout_once (updateUserState a u r) = layout_once r"
  by (simp add: layout_once_def updateUserState_def obstacle_writes_append split: option.splits)

lemma layout_once_broadcastToRoom: "layout_once (broadcastToRoom ev p r) = layout_once r"
  by (simp add: layout_once_def broadcastToRoom_def obstacle_writes_append split: option.splits)

lemma layout_once_updateRoomState:
  assumes "layout_once r" and "initialized upd = None" and "obstacles upd = None"
  shows "layout_once (updateRoomState upd r)"
  using assms
  by (auto simp add: layout_once_def updateRoomState_def obstacle_writes_append merge_room_def
        orElse_def split: option.splits)

lemma layout_once_global_leaveRoom: "layout_once (global_leaveRoom me r) = layout_once r"
  by (simp add: layout_once_def global_leaveRoom_def split: option.splits)

lemma layout_once_playerHit: "layout_once r \<Longrightarrow> layout_once (snd (playerHit d r))"
  by (simp add: playerHit_def Let_def layout_once_updateUserState split: option.splits)

lemma layout_once_playerDied: "layout_once r \<Longrightarrow> layout_once (snd (playerDied d r))"
  by (simp add: playerDied_def Let_def layout_once_updateUserState split: option.splits)

lemma layout_once_spawnPowerup: "layout_once r \<Longrightarrow> layout_once (snd (spawnPowerup sd r))"
  by (simp add: spawnPowerup_def Let_def layout_once_broadcastToRoom layout_once_updateRoomState
        no_room_fields_def split: option.splits)

lemma layout_once_collectPowerup: "layout_once r \<Longrightarrow> layout_once (snd (collectPowerup i r))"
  by (simp add: collectPowerup_def Let_def layout_once_updateRoomState
        no_room_fields_def split: option.splits)

lemma layout_once_tick_cleanup: "layout_once r \<Longrightarrow> layout_once (tick_cleanup s t r)"
  by (simp add: tick_cleanup_def Let_def layout_once_updateRoomState
        no_room_fields_def split: option.splits)

lemma layout_once_roomTick:
  assumes "layout_once r"
  shows "layout_once (roomTick deltaMS now sd currentTime r)"
proof (cases "getRoomState r")
  case None
  with assms show ?thesis by (simp add: roomTick_def)
next
  case (Some s)
  let ?r1 = "updateRoomState (no_room_fields\<lparr>gameTime := Some (or_num (gameTime s) 0 + deltaMS)\<rparr>) r"
  have r1: "layout_once ?r1"
    using assms by (simp add: layout_once_updateRoomState no_room_fields_def)
  then have "layout_once (snd (spawnPowerup sd ?r1))"
    by (rule layout_once_spawnPowerup)
  with r1 Some show ?thesis
    by (auto simp add: roomTick_def Let_def layout_once_tick_cleanup split: prod.splits sum.splits)
qed

lemma layout_once_in_room:
  assumes "world_layout_once w" and "\<And>r. layout_once r \<Longrightarrow> layout_once (f r)"
  shows "world_layout_once (in_room rid f w)"
  using assms by (auto simp add: world_layout_once_def in_room_def split: option.splits)

lemma joined_fresh_or_layout_once:
  assumes "world_layout_once w"
  shows "layout_once (global_joinRoom me rid w) \<or>
         stored (global_joinRoom me rid w) = Some no_room_fields \<and>
         obstacle_writes (trace (global_joinRoom me rid w)) = []"
proof (cases "w rid")
  case None
  then show ?thesis
    by (simp add: global_joinRoom_def Let_def new_room_def)
next
  case (Some r)
  with assms have "layout_once r" by (simp add: world_layout_once_def)
  then have "layout_once (r\<lparr>members := m\<rparr>)" for m
    by (auto simp add: layout_once_def split: option.splits)
  with Some show ?thesis
    by (simp add: global_joinRoom_def Let_def)
qed

lemma fresh_updateUserState:
  assumes "stored r = Some no_room_fields \<and> obstacle_writes (trace r) = []"
  shows "stored (updateUserState a u r) = Some no_room_fields \<and>
         obstacle_writes (trace (updateUserState a u r)) = []"
  using assms by (simp add: updateUserState_def obstacle_writes_append)

lemma layout_once_initialize:
  assumes "stored r = Some no_room_fields \<and> obstacle_writes (trace r) = []"
  shows "layout_once
     (updateRoomState
        \<lparr>initialized = Some True, gameTime = Some 0, powerups = Some [],
         obstacles = Some (generateObstacles rnd), lastPowerupSpawn = Some now\<rparr> r)"
  using assms
  by (simp add: layout_once_def updateRoomState_def merge_room_def orElse_def
        obstacle_writes_append length_generateObstacles)

lemma layout_once_joinRoom:
  assumes "world_layout_once w"
  shows "world_layout_once (snd (joinRoom me roomId fresh ux uy rnd now w))"
proof -
  define rid where "rid = (case roomId of None \<Rightarrow> fresh | Some x \<Rightarrow> if x \<noteq> [] then x else fresh)"
  define r1 where "r1 = updateMyState me
       (no_fields\<lparr>px := Some (rand_coord ux), py := Some (rand_coord uy),
          health := Some 100, score := Some 0\<rparr>) (global_joinRoom me rid w)"
  define r2 where "r2 = updateRoomState
        \<lparr>initialized = Some True, gameTime = Some 0, powerups = Some [],
         obstacles = Some (generateObstacles rnd), lastPowerupSpawn = Some now\<rparr> r1"
  have upd: "world_layout_once (w(rid \<mapsto> r))" if "layout_once r" for r
    using assms that by (simp add: world_layout_once_def)
  have r1: "layout_once r1 \<or> stored r1 = Some no_room_fields \<and> obstacle_writes (trace r1) = []"
    using joined_fresh_or_layout_once [OF assms, of me rid]
  proof
    assume "layout_once (global_joinRoom me rid w)"
    then have "layout_once r1"
      by (simp add: r1_def updateMyState_def layout_once_updateUserState)
    then show ?thesis ..
  next
    assume "stored (global_joinRoom me rid w) = Some no_room_fields \<and>
      obstacle_writes (trace (global_joinRoom me rid w)) = []"
    then have "stored r1 = Some no_room_fields \<and> obstacle_writes (trace r1) = []"
      unfolding r1_def updateMyState_def by (rule fresh_updateUserState)
    then show ?thesis ..
  qed
  then obtain s where s: "getRoomState r1 = Some s"
    by (auto simp add: getRoomState_def layout_once_def split: option.splits)
  have res: "snd (joinRoom me roomId fresh ux uy rnd now w) = w \<or>
             snd (joinRoom me roomId fresh ux uy rnd now w) =
               w(rid \<mapsto> (if \<not> truthy_bool (initialized s) then r2 else r1))"
    using s [unfolded r1_def rid_def]
    by (simp add: joinRoom_def Let_def r2_def r1_def rid_def)
  have "layout_once (if \<not> truthy_bool (initialized s) then r2 else r1)"
  proof (cases "truthy_bool (initialized s)")
    case True
    with r1 s have "layout_once r1"
      by (auto simp add: getRoomState_def truthy_bool_def no_room_fields_def)
    with True show ?thesis by simp
  next
    case False
    with r1 s have "stored r1 = Some no_room_fields \<and> obstacle_writes (trace r1) = []"
      by (auto simp add: getRoomState_def truthy_bool_def layout_once_def split: option.splits)
    then have "layout_once r2"
      unfolding r2_def by (rule layout_once_initialize)
    with False show ?thesis by simp
  qed
  then have new: "world_layout_once (w(rid \<mapsto> (if \<not> truthy_bool (initialized s) then r2 else r1)))"
    by (rule upd)
  from res show ?thesis
  proof
    assume "snd (joinRoom me roomId fresh ux uy rnd now w) = w"
    with assms show ?thesis by simp
  next
    assume "snd (joinRoom me roomId fresh ux uy rnd now w) =
               w(rid \<mapsto> (if \<not> truthy_bool (initialized s) then r2 else r1))"
    with new show ?thesis by simp
  qed
qed

lemma layout_once_step:
  assumes "world_layout_once w"
  shows "world_layout_once (step w op)"
proof (cases op)
  case (JoinRoom me roomId fresh ux uy rnd now)
  with assms show ?thesis by (simp add: layout_once_joinRoom)
next
  case (LeaveRoom me rid)
  have "world_layout_once (in_room rid (\<lambda>r. snd (leaveRoom me r)) w)"
    using assms by (rule layout_once_in_room) (simp add: leaveRoom_def layout_once_global_leaveRoom)
  with LeaveRoom show ?thesis by simp
next
  case (SetPlayerData me rid data)
  have "world_layout_once (in_room rid (\<lambda>r. snd (setPlayerData me data r)) w)"
    using assms
    by (rule layout_once_in_room)
       (simp add: setPlayerData_def updateMyState_def layout_once_updateUserState)
  with SetPlayerData show ?thesis by simp
next
  case (UpdatePlayerPosition me rid data)
  have "world_layout_once (in_room rid (\<lambda>r. snd (updatePlayerPosition me data r)) w)"
    using assms
    by (rule layout_once_in_room)
       (simp add: updatePlayerPosition_def updateMyState_def layout_once_updateUserState)
  with UpdatePlayerPosition show ?thesis by simp
next
  case (FireProjectile rid projectileData)
  have "world_layout_once (in_room rid (\<lambda>r. snd (fireProjectile projectileData r)) w)"
    using assms
    by (rule layout_once_in_room) (simp add: fireProjectile_def layout_once_broadcastToRoom)
  with FireProjectile show ?thesis by simp
next
  case (PlayerHit rid data)
  have "world_layout_once (in_room rid (\<lambda>r. snd (playerHit data r)) w)"
    using assms by (rule layout_once_in_room) (rule layout_once_playerHit)
  with PlayerHit show ?thesis by simp
next
  case (PlayerDied rid data)
  have "world_layout_once (in_room rid (\<lambda>r. snd (playerDied data r)) w)"
    using assms by (rule layout_once_in_room) (rule layout_once_playerDied)
  with PlayerDied show ?thesis by simp
next
  case (SpawnPowerup rid sd)
  have "world_layout_once (in_room rid (\<lambda>r. snd (spawnPowerup sd r)) w)"
    using assms by (rule layout_once_in_room) (rule layout_once_spawnPowerup)
  with SpawnPowerup show ?thesis by simp
next
  case (CollectPowerup rid powerupId)
  have "world_layout_once (in_room rid (\<lambda>r. snd (collectPowerup powerupId r)) w)"
    using assms by (rule layout_once_in_room) (rule layout_once_collectPowerup)
  with CollectPowerup show ?thesis by simp
next
  case (RoomTick rid deltaMS now sd currentTime)
  have "world_layout_once (in_room rid (roomTick deltaMS now sd currentTime) w)"
    using assms by (rule layout_once_in_room) (rule layout_once_roomTick)
  with RoomTick show ?thesis by simp
qed

lemma layout_once_run: "world_layout_once w \<Longrightarrow> world_layout_once (run w ops)"
  unfolding run_def by (induction ops arbitrary: w) (simp_all add: layout_once_step)

text \<open>
  C5. Take any sequence of calls, starting with no room at all, and any room that exists
  after it. The room is initialized, its stored obstacle layout has exactly 30 pairs, and
  among all the writes the room has ever received exactly one carried a layout: the
  stored one. The first join wrote it together with \<open>initialized = true\<close>; no later
  join, and no other call, has regenerated or overwritten it.
\<close>

theorem obstacles_written_once:
  assumes "run Map.empty ops rid = Some r"
  shows "\<exists>s obs. stored r = Some s \<and> initialized s = Some True \<and> obstacles s = Some obs \<and>
           length obs = 30 \<and> obstacle_writes (trace r) = [obs]"
proof -
  have "world_layout_once Map.empty" by (simp add: world_layout_once_def)
  then have "world_layout_once (run Map.empty ops)" by (rule layout_once_run)
  with assms have "layout_once r" by (simp add: world_layout_once_def)
  then show ?thesis
    by (auto simp add: layout_once_def OBSTACLE_COUNT_def split: option.splits)
qed


lemma run_two_joins:
  "\<exists>r. run Map.empty two_joins ''r1'' = Some r \<and>
       obstacle_writes (trace r) = [generateObstacles (\<lambda>i. 0)]"
  by (simp add: run_def two_joins_def joinRoom_def Let_def getRoomUserAccounts_def
        global_joinRoom_def new_room_def updateMyState_def updateUserState_def getRoomState_def
        updateRoomState_def truthy_bool_def no_room_fields_def merge_room_def orElse_def
        MAX_PLAYERS_PER_ROOM_def)

theorem obstacles_written_once_witness:
  "\<exists>r s. run Map.empty two_joins ''r1'' = Some r \<and> stored r = Some s \<and>
      initialized s = Some True \<and> obstacles s = Some (generateObstacles (\<lambda>i. 0)) \<and>
      length (generateObstacles (\<lambda>i. 0)) = 30 \<and>
      obstacle_writes (trace r) = [generateObstacles (\<lambda>i. 0)]"
proof -
  from run_two_joins obtain r where r: "run Map.empty two_joins ''r1'' = Some r"
    and w: "obstacle_writes (trace r) = [generateObstacles (\<lambda>i. 0)]"
    by blast
  from obstacles_written_once [OF r] w r show ?thesis
    by auto
qed

section \<open>Two first joins in flight\<close>

text \<open>
  The two parts of \<open>joinRoom\<close>, run one after the other, are \<open>joinRoom\<close>. Any finer
  cut of the call at its other \<open>await\<close>s allows the order of steps used below as well.
\<close>

lemma in_room_upd: "in_room rid f (w(rid \<mapsto> r)) = w(rid \<mapsto> f r)"
  by (simp add: in_room_def)

lemma joinRoom_phases:
  "joinRoom me roomId fresh ux uy rnd now w =
     (case joinRoom_enter me roomId fresh ux uy w of
        (Inl e, w1) \<Rightarrow> (Inl e, w1)
      | (Inr (rid, roomState), w1) \<Rightarrow> joinRoom_init rid roomState rnd now w1)"
  by (simp add: joinRoom_def joinRoom_enter_def joinRoom_init_def Let_def in_room_upd
        split: option.splits)

lemma generateObstacles_loop_nth:
  "n < length obs \<Longrightarrow> generateObstacles_loop rnd i obs ! n = obs ! n"
proof (induction rnd i obs rule: generateObstacles_loop.induct)
  case (1 rnd i obs)
  show ?case
  proof (cases "i < OBSTACLE_COUNT")
    case True
    with "1.IH" "1.prems" show ?thesis
      by (subst generateObstacles_loop.simps) (simp add: nth_append)
  next
    case False
    then show ?thesis
      by (subst generateObstacles_loop.simps) simp
  qed
qed

lemma generateObstacles_first:
  "generateObstacles rnd ! 0 = \<lparr>ox = rand_coord (rnd 0), oy = rand_coord (rnd 1)\<rparr>"
proof -
  have "generateObstacles rnd =
      generateObstacles_loop rnd 1 [\<lparr>ox = rand_coord (rnd 0), oy = rand_coord (rnd 1)\<rparr>]"
    unfolding generateObstacles_def
    by (subst generateObstacles_loop.simps) (simp add: OBSTACLE_COUNT_def)
  then show ?thesis
    by (simp add: generateObstacles_loop_nth)
qed

lemma layouts_differ: "generateObstacles (\<lambda>i. 0) \<noteq> generateObstacles (\<lambda>i. 1 / 2)"
proof
  assume "generateObstacles (\<lambda>i. 0) = generateObstacles (\<lambda>i. 1 / 2)"
  then have "generateObstacles (\<lambda>i. 0) ! 0 = generateObstacles (\<lambda>i. 1 / 2) ! 0"
    by simp
  then show False
    by (simp add: generateObstacles_first rand_coord_def)
qed

lemma first_joins_schedule:
  "joins_interleaved first_join_a first_join_b Map.empty =
     (snd (joinRoom_init ''r1'' no_room_fields (\<lambda>i. 0) 1000
        (snd (joinRoom_enter ''b'' (Some ''r1'') ''f2'' (1 / 2) (1 / 2)
          (snd (joinRoom_enter ''a'' (Some ''r1'') ''f1'' 0 0 Map.empty))))),
      snd (joinRoom_init ''r1'' no_room_fields (\<lambda>i. 1 / 2) 1000
       (snd (joinRoom_init ''r1'' no_room_fields (\<lambda>i. 0) 1000
        (snd (joinRoom_enter ''b'' (Some ''r1'') ''f2'' (1 / 2) (1 / 2)
          (snd (joinRoom_enter ''a'' (Some ''r1'') ''f1'' 0 0 Map.empty))))))))"
  by (simp add: joins_interleaved_def first_join_a_def first_join_b_def joinRoom_enter_def Let_def
        getRoomUserAccounts_def global_joinRoom_def new_room_def updateMyState_def
        updateUserState_def getRoomState_def MAX_PLAYERS_PER_ROOM_def)

text \<open>
  C9 at the failing input. Two callers join the room \<open>r1\<close>, which does not exist yet,
  and both read the room state before either writes it. Both find it uninitialized, each
  generates a layout and writes it: the room receives two layout writes, a reader after
  the first call sees the first layout, a reader after the second call sees the second,
  and the two layouts differ.
\<close>

theorem interleaved_first_joins_write_two_layouts:
  "layoutsWritten (snd (joins_interleaved first_join_a first_join_b Map.empty)) ''r1'' =
     [generateObstacles (\<lambda>i. 0), generateObstacles (\<lambda>i. 1 / 2)] \<and>
   obstaclesOf (fst (joins_interleaved first_join_a first_join_b Map.empty)) ''r1'' =
     Some (generateObstacles (\<lambda>i. 0)) \<and>
   obstaclesOf (snd (joins_interleaved first_join_a first_join_b Map.empty)) ''r1'' =
     Some (generateObstacles (\<lambda>i. 1 / 2)) \<and>
   generateObstacles (\<lambda>i. 0) \<noteq> generateObstacles (\<lambda>i. 1 / 2)"
  by (simp add: first_joins_schedule layouts_differ)
     (simp add: joinRoom_init_def joinRoom_enter_def Let_def
        getRoomUserAccounts_def global_joinRoom_def new_room_def updateMyState_def
        updateUserState_def getRoomState_def MAX_PLAYERS_PER_ROOM_def in_room_def
        updateRoomState_def truthy_bool_def no_room_fields_def merge_room_def orElse_def
        layoutsWritten_def obstaclesOf_def)

section \<open>Health stays within its bounds\<close>

lemma healthOf_updateRoomState: "healthOf (updateRoomState upd r) a = healthOf r a"
  by (simp add: healthOf_def updateRoomState_def)

lemma healthOf_broadcastToRoom: "healthOf (broadcastToRoom ev p r) a = healthOf r a"
  by (simp add: healthOf_def broadcastToRoom_def)

lemma healthOf_global_leaveRoom:
  "healthOf (global_leaveRoom me r) a = (if a = me then None else healthOf r a)"
  by (simp add: healthOf_def global_leaveRoom_def)

lemma health_bounded_updateUserState:
  assumes "health_bounded r" and "health_in_range (health u)"
  shows "health_bounded (updateUserState a u r)"
  using assms
  by (auto simp add: health_bounded_def healthOf_updateUserState orElse_def
        split: option.splits)

lemma health_bounded_updateRoomState: "health_bounded (updateRoomState upd r) = health_bounded r"
  by (simp add: health_bounded_def healthOf_updateRoomState)

lemma health_bounded_broadcastToRoom: "health_bounded (broadcastToRoom ev p r) = health_bounded r"
  by (simp add: health_bounded_def healthOf_broadcastToRoom)

lemma health_bounded_global_leaveRoom:
  "health_bounded r \<Longrightarrow> health_bounded (global_leaveRoom me r)"
  by (simp add: health_bounded_def healthOf_global_leaveRoom health_in_range_def)

lemma health_no_fields: "health no_fields = None"
  by (simp add: no_fields_def)

lemma health_in_range_None: "health_in_range None"
  by (simp add: health_in_range_def)

lemma health_bounded_playerHit:
  assumes "health_bounded r" and "0 \<le> damage d"
  shows "health_bounded (snd (playerHit d r))"
proof (cases "getUserState r (targetId d)")
  case None
  with assms show ?thesis by (simp add: playerHit_def)
next
  case (Some targetState)
  from assms(1) have "health_in_range (healthOf r (targetId d))"
    by (simp add: health_bounded_def)
  with Some have "health_in_range (health targetState)"
    by (simp add: healthOf_def getUserState_def)
  with assms(2) have "health_in_range (Some (max 0 (or_num (health targetState) 100 - damage d)))"
    by (auto simp add: health_in_range_def or_num_def split: option.splits)
  with assms(1) Some show ?thesis
    by (simp add: playerHit_def Let_def health_bounded_updateUserState)
qed

lemma health_bounded_playerDied:
  assumes "health_bounded r"
  shows "health_bounded (snd (playerDied d r))"
proof -
  have "health_bounded (updateUserState (playerId d) (no_fields\<lparr>health := Some 100\<rparr>) r)"
    using assms by (rule health_bounded_updateUserState) (simp add: health_in_range_def)
  then show ?thesis
    by (simp add: playerDied_def Let_def health_bounded_updateUserState health_no_fields
          health_in_range_None split: option.splits)
qed

lemma health_bounded_spawnPowerup: "health_bounded r \<Longrightarrow> health_bounded (snd (spawnPowerup sd r))"
  by (simp add: spawnPowerup_def Let_def health_bounded_broadcastToRoom
        health_bounded_updateRoomState split: option.splits)

lemma health_bounded_collectPowerup: "health_bounded r \<Longrightarrow> health_bounded (snd (collectPowerup i r))"
  by (simp add: collectPowerup_def Let_def health_bounded_updateRoomState split: option.splits)

lemma health_bounded_tick_cleanup: "health_bounded (tick_cleanup s t r) = health_bounded r"
  by (simp add: tick_cleanup_def Let_def health_bounded_updateRoomState split: option.splits)

lemma health_bounded_roomTick:
  assumes "health_bounded r"
  shows "health_bounded (roomTick deltaMS now sd currentTime r)"
proof (cases "getRoomState r")
  case None
  with assms show ?thesis by (simp add: roomTick_def)
next
  case (Some s)
  let ?r1 = "updateRoomState (no_room_fields\<lparr>gameTime := Some (or_num (gameTime s) 0 + deltaMS)\<rparr>) r"
  have r1: "health_bounded ?r1"
    using assms by (simp add: health_bounded_updateRoomState)
  then have "health_bounded (snd (spawnPowerup sd ?r1))"
    by (rule health_bounded_spawnPowerup)
  with r1 Some show ?thesis
    by (auto simp add: roomTick_def Let_def health_bounded_tick_cleanup
          split: prod.splits sum.splits)
qed

lemma health_bounded_in_room:
  assumes "world_health_bounded w" and "\<And>r. health_bounded r \<Longrightarrow> health_bounded (f r)"
  shows "world_health_bounded (in_room rid f w)"
  using assms by (auto simp add: world_health_bounded_def in_room_def split: option.splits)

lemma health_bounded_global_joinRoom:
  assumes "world_health_bounded w"
  shows "health_bounded (global_joinRoom me rid w)"
proof (cases "w rid")
  case None
  then show ?thesis
    by (simp add: global_joinRoom_def Let_def new_room_def health_bounded_def healthOf_def
          health_in_range_def)
next
  case (Some r)
  with assms have "health_bounded r" by (simp add: world_health_bounded_def)
  then have "health_bounded (r\<lparr>members := m\<rparr>)" for m
    by (simp add: health_bounded_def healthOf_def)
  with Some show ?thesis
    by (simp add: global_joinRoom_def Let_def)
qed

lemma health_bounded_joinRoom:
  assumes "world_health_bounded w"
  shows "world_health_bounded (snd (joinRoom me roomId fresh ux uy rnd now w))"
proof -
  define rid where "rid = (case roomId of None \<Rightarrow> fresh | Some x \<Rightarrow> if x \<noteq> [] then x else fresh)"
  define r1 where "r1 = updateMyState me
       (no_fields\<lparr>px := Some (rand_coord ux), py := Some (rand_coord uy),
          health := Some 100, score := Some 0\<rparr>) (global_joinRoom me rid w)"
  define r2 where "r2 = updateRoomState
        \<lparr>initialized = Some True, gameTime = Some 0, powerups = Some [],
         obstacles = Some (generateObstacles rnd), lastPowerupSpawn = Some now\<rparr> r1"
  have upd: "world_health_bounded (w(rid \<mapsto> r))" if "health_bounded r" for r
    using assms that by (simp add: world_health_bounded_def)
  have r1: "health_bounded r1"
    unfolding r1_def updateMyState_def
    using health_bounded_global_joinRoom [OF assms]
    by (rule health_bounded_updateUserState) (simp add: health_in_range_def)
  then have r2: "health_bounded r2"
    by (simp add: r2_def health_bounded_updateRoomState)
  have res: "snd (joinRoom me roomId fresh ux uy rnd now w) = w \<or>
             snd (joinRoom me roomId fresh ux uy rnd now w) = w(rid \<mapsto> r1) \<or>
             snd (joinRoom me roomId fresh ux uy rnd now w) = w(rid \<mapsto> r2)"
    by (simp add: joinRoom_def Let_def r2_def r1_def rid_def split: option.splits)
  then show ?thesis
  proof (elim disjE)
    assume "snd (joinRoom me roomId fresh ux uy rnd now w) = w"
    with assms show ?thesis by simp
  next
    assume "snd (joinRoom me roomId fresh ux uy rnd now w) = w(rid \<mapsto> r1)"
    with upd [OF r1] show ?thesis by simp
  next
    assume "snd (joinRoom me roomId fresh ux uy rnd now w) = w(rid \<mapsto> r2)"
    with upd [OF r2] show ?thesis by simp
  qed
qed

lemma health_bounded_step:
  assumes "world_health_bounded w" and "op_in_range op"
  shows "world_health_bounded (step w op)"
proof (cases op)
  case (JoinRoom me roomId fresh ux uy rnd now)
  with assms show ?thesis by (simp add: health_bounded_joinRoom)
next
  case (LeaveRoom me rid)
  have "world_health_bounded (in_room rid (\<lambda>r. snd (leaveRoom me r)) w)"
    using assms(1)
    by (rule health_bounded_in_room) (simp add: leaveRoom_def health_bounded_global_leaveRoom)
  with LeaveRoom show ?thesis by simp
next
  case (SetPlayerData me rid data)
  have "world_health_bounded (in_room rid (\<lambda>r. snd (setPlayerData me data r)) w)"
    using assms(1)
    by (rule health_bounded_in_room)
       (simp add: setPlayerData_def updateMyState_def health_bounded_updateUserState
          health_no_fields health_in_range_None)
  with SetPlayerData show ?thesis by simp
next
  case (UpdatePlayerPosition me rid data)
  with assms(2) have "health_in_range (health data)" by simp
  then have "world_health_bounded (in_room rid (\<lambda>r. snd (updatePlayerPosition me data r)) w)"
    by (intro health_bounded_in_room assms(1))
       (simp add: updatePlayerPosition_def updateMyState_def health_bounded_updateUserState)
  with UpdatePlayerPosition show ?thesis by simp
next
  case (FireProjectile rid projectileData)
  have "world_health_bounded (in_room rid (\<lambda>r. snd (fireProjectile projectileData r)) w)"
    using assms(1)
    by (rule health_bounded_in_room) (simp add: fireProjectile_def health_bounded_broadcastToRoom)
  with FireProjectile show ?thesis by simp
next
  case (PlayerHit rid data)
  with assms(2) have "0 \<le> damage data" by simp
  then have "world_health_bounded (in_room rid (\<lambda>r. snd (playerHit data r)) w)"
    by (intro health_bounded_in_room assms(1)) (simp add: health_bounded_playerHit)
  with PlayerHit show ?thesis by simp
next
  case (PlayerDied rid data)
  have "world_health_bounded (in_room rid (\<lambda>r. snd (playerDied data r)) w)"
    using assms(1) by (rule health_bounded_in_room) (rule health_bounded_playerDied)
  with PlayerDied show ?thesis by simp
next
  case (SpawnPowerup rid sd)
  have "world_health_bounded (in_room rid (\<lambda>r. snd (spawnPowerup sd r)) w)"
    using assms(1) by (rule health_bounded_in_room) (rule health_bounded_spawnPowerup)
  with SpawnPowerup show ?thesis by simp
next
  case (CollectPowerup rid powerupId)
  have "world_health_bounded (in_room rid (\<lambda>r. snd (collectPowerup powerupId r)) w)"
    using assms(1) by (rule health_bounded_in_room) (rule health_bounded_collectPowerup)
  with CollectPowerup show ?thesis by simp
next
  case (RoomTick rid deltaMS now sd currentTime)
  have "world_health_bounded (in_room rid (roomTick deltaMS now sd currentTime) w)"
    using assms(1) by (rule health_bounded_in_room) (rule health_bounded_roomTick)
  with RoomTick show ?thesis by simp
qed

lemma health_bounded_run:
  "world_health_bounded w \<Longrightarrow> \<forall>op\<in>set ops. op_in_range op \<Longrightarrow> world_health_bounded (run w ops)"
  unfolding run_def by (induction ops arbitrary: w) (simp_all add: health_bounded_step)

text \<open>
  C1, amended. Take any sequence of calls, starting with no room at all, in which every
  position update carries an integer health in \<open>[0, 100]\<close> (or none) and every hit
  carries an integer damage that is not negative. After it, every stored health of every
  player of every room is an integer in \<open>[0, 100]\<close>. (Health and damage are integers
  by their type here; the code rounds nothing, so a fractional health or damage is stored
  as a fractional health.)
\<close>

theorem health_stays_in_range:
  assumes "\<forall>op\<in>set ops. op_in_range op"
    and "run Map.empty ops rid = Some r"
    and "healthOf r a = Some h"
  shows "0 \<le> h \<and> h \<le> 100"
proof -
  have "world_health_bounded Map.empty" by (simp add: world_health_bounded_def)
  then have "world_health_bounded (run Map.empty ops)"
    using assms(1) by (rule health_bounded_run)
  with assms(2) have "health_bounded r" by (simp add: world_health_bounded_def)
  then have "health_in_range (healthOf r a)" by (simp add: health_bounded_def)
  with assms(3) show ?thesis by (simp add: health_in_range_def)
qed

lemma run_join_and_hit:
  "\<exists>r. run Map.empty join_and_hit ''r1'' = Some r \<and> healthOf r ''a'' = Some 70"
  by (simp add: run_def join_and_hit_def joinRoom_def Let_def getRoomUserAccounts_def
        global_joinRoom_def new_room_def updateMyState_def updateUserState_def getRoomState_def
        updateRoomState_def truthy_bool_def no_room_fields_def merge_room_def orElse_def
        MAX_PLAYERS_PER_ROOM_def in_room_def playerHit_def getUserState_def merge_user_def
        no_fields_def or_num_def healthOf_def)

theorem health_stays_in_range_witness:
  "\<exists>r. run Map.empty join_and_hit ''r1'' = Some r \<and> healthOf r ''a'' = Some 70 \<and>
      (0::int) \<le> 70 \<and> (70::int) \<le> 100"
proof -
  from run_join_and_hit obtain r where r: "run Map.empty join_and_hit ''r1'' = Some r"
    and h: "healthOf r ''a'' = Some 70"
    by blast
  have ok: "\<forall>op\<in>set join_and_hit. op_in_range op"
    by (simp add: join_and_hit_def)
  from health_stays_in_range [OF ok r h] r h show ?thesis
    by blast
qed

text \<open>
  C1 as stated fails: \<open>updatePlayerPosition\<close> stores the health the client sends, 150 or
  \<open>-5\<close>, as it is, and \<open>playerHit\<close> with the damage \<open>-50\<close> raises a health of 100
  to 150.
\<close>

theorem health_out_of_range_counterexample:
  "healthOf (snd (updatePlayerPosition ''t'' (no_fields\<lparr>health := Some 150\<rparr>)
       (single_room ''t'' (no_fields\<lparr>health := Some 100\<rparr>)))) ''t'' = Some 150 \<and>
   \<not> (150::int) \<le> 100 \<and>
   healthOf (snd (updatePlayerPosition ''t'' (no_fields\<lparr>health := Some (- 5)\<rparr>)
       (single_room ''t'' (no_fields\<lparr>health := Some 100\<rparr>)))) ''t'' = Some (- 5) \<and>
   \<not> (0::int) \<le> - 5 \<and>
   healthOf (snd (playerHit \<lparr>targetId = ''t'', attackerId = ''a'', damage = - 50\<rparr>
       (single_room ''t'' (no_fields\<lparr>health := Some 100\<rparr>)))) ''t'' = Some 150"
  by (simp add: updatePlayerPosition_def updateMyState_def playerHit_def getUserState_def
        or_num_def healthOf_updateUserState Let_def orElse_def userStates_single_room
        healthOf_single_room)

end
